theory Spec2Isabelle
  imports Main "HOL-Library.Sublist"
begin

section \<open>Conversation turns\<close>

text \<open>
  A turn is one of the message classes of the chat library, each carrying its text.
  The program builds \<open>HumanMessage\<close> itself (basic.py, lines 35 and 57); the prompt
  templates of chains.py put a system turn in front; the chat model answers with a turn
  of its own, normally an \<open>AIMessage\<close>.
\<close>

datatype message = SystemMessage string | HumanMessage string | AIMessage string

fun content :: "message \<Rightarrow> string" where
  "content (SystemMessage c) = c"
| "content (HumanMessage c) = c"
| "content (AIMessage c) = c"

datatype role = System | Human | Assistant

fun role_of :: "message \<Rightarrow> role" where
  "role_of (SystemMessage c) = System"
| "role_of (HumanMessage c) = Human"
| "role_of (AIMessage c) = Assistant"

section \<open>Errors and observable events\<close>

text \<open>
  Every exception of the program is a value: the \<open>assert\<close> of chains.py line 11, the
  dictionary lookup of basic.py line 10, and whatever the remote model call raises.
\<close>

datatype error = AssertionError string | KeyError string | RemoteError string

datatype chain = generation_chain | reflection_chain

datatype node = GENERATE | REFLECT | END

datatype rendering = Mermaid | Ascii

text \<open>
  What the run does to the outside world, in the order it does it: lines written to
  standard output, prompts sent to the model, and the conversation as the graph
  runtime stores it after a node has run.
\<close>

datatype event =
    Print string
  | PrintGraph rendering
  | PrintState "message list"
  | ModelCall chain "message list"
  | Update node "message list"

record 'w world =
  remote :: 'w
  trace :: "event list"

text \<open>
  The hosted model is outside the program: a call takes the prompt and the service's
  own state, and either raises or answers with one turn.
\<close>

type_synonym 'w llm = "message list \<Rightarrow> 'w \<Rightarrow> (error + message) \<times> 'w"

section \<open>chains.py: the two prompt templates piped into the model\<close>

definition generation_prompt :: "message list \<Rightarrow> message list" where
  "generation_prompt messages =
     SystemMessage (''You are a twitter techie influencer assistant tasked with writing excellent twitter posts. '' @
                    ''Generate the best twitter post possible for the user's request. '' @
                    ''If the user provides critique, respond with a revised version of your previous attempts.'')
     # messages"

definition reflection_prompt :: "message list \<Rightarrow> message list" where
  "reflection_prompt messages =
     SystemMessage (''You are a viral twitter influencer grading a tweet. Generate critique and recommendations for the user's tweet. '' @
                    ''Always provide detailed recommendations, including requests for length, virality, style, etc.'')
     # messages"

fun prompt_of :: "chain \<Rightarrow> message list \<Rightarrow> message list" where
  "prompt_of generation_chain messages = generation_prompt messages"
| "prompt_of reflection_chain messages = reflection_prompt messages"

text \<open>
  \<open>chain.invoke({"messages": messages})\<close>: format the prompt, call the model once,
  hand back its answer or its exception. Both chains share the one client \<open>llm\<close>.
\<close>

definition chain_invoke ::
  "chain \<Rightarrow> 'w llm \<Rightarrow> message list \<Rightarrow> 'w world \<Rightarrow> (error + message) \<times> 'w world" where
  "chain_invoke c llm messages w =
     (let prompt = prompt_of c messages;
          (r, s') = llm prompt (remote w)
      in (r, \<lparr>remote = s', trace = trace w @ [ModelCall c prompt]\<rparr>))"

section \<open>basic.py: the nodes and the edges of the graph\<close>

definition generate_node :: "'w llm \<Rightarrow> message list \<Rightarrow> 'w world \<Rightarrow> (error + message) \<times> 'w world" where
  "generate_node llm state w = chain_invoke generation_chain llm state w"

definition reflect_node ::
  "'w llm \<Rightarrow> message list \<Rightarrow> 'w world \<Rightarrow> (error + message list) \<times> 'w world" where
  "reflect_node llm messages w =
     (case chain_invoke reflection_chain llm messages w of
        (Inl e, w') \<Rightarrow> (Inl e, w')
      | (Inr response, w') \<Rightarrow> (Inr [HumanMessage (content response)], w'))"

definition should_continue :: "message list \<Rightarrow> node" where
  "should_continue state = (if length state > 6 then END else REFLECT)"

definition entry_point :: node where
  "entry_point = GENERATE"

text \<open>
  \<open>add_conditional_edges(GENERATE, should_continue)\<close> and \<open>add_edge(REFLECT, GENERATE)\<close>.
\<close>

fun next_node :: "node \<Rightarrow> message list \<Rightarrow> node" where
  "next_node GENERATE state = should_continue state"
| "next_node REFLECT state = GENERATE"
| "next_node END state = END"

section \<open>The graph runtime\<close>

text \<open>
  The message graph keeps one list of turns. What a node returns (one turn or a list of
  turns) is joined to the end of that list by the runtime's reducer before the outgoing
  edge is looked at; the turns built here carry fresh identifiers, for which the reducer
  appends.
\<close>

definition add_messages :: "message list \<Rightarrow> message list \<Rightarrow> message list" where
  "add_messages left right = left @ right"

definition run_node ::
  "'w llm \<Rightarrow> node \<Rightarrow> message list \<Rightarrow> 'w world \<Rightarrow> (error + message list) \<times> 'w world" where
  "run_node llm n state w =
     (case n of
        GENERATE \<Rightarrow>
          (case generate_node llm state w of
             (Inl e, w') \<Rightarrow> (Inl e, w')
           | (Inr response, w') \<Rightarrow> (Inr [response], w'))
      | REFLECT \<Rightarrow> reflect_node llm state w
      | END \<Rightarrow> (Inr [], w))"

definition step ::
  "'w llm \<Rightarrow> node \<Rightarrow> message list \<Rightarrow> 'w world \<Rightarrow> (error + message list) \<times> 'w world" where
  "step llm n state w =
     (case run_node llm n state w of
        (Inl e, w') \<Rightarrow> (Inl e, w')
      | (Inr out, w') \<Rightarrow>
          (let state' = add_messages state out
           in (Inr state', w'\<lparr>trace := trace w' @ [Update n state']\<rparr>)))"

text \<open>
  \<open>app.invoke\<close> runs the node it is at, stores the new conversation, follows the outgoing
  edge, and so on until the edge leads to \<open>END\<close>; an exception of a node leaves the loop
  at once. The loop is total: after a generation step it goes on only while the
  conversation has at most 6 turns, and every step adds a turn.
\<close>

fun budget :: "node \<Rightarrow> nat \<Rightarrow> nat" where
  "budget END k = 0"
| "budget GENERATE k = 2 * (7 - k) + 1"
| "budget REFLECT k = 2 * (7 - k) + 2"

function run_from ::
  "'w llm \<Rightarrow> node \<Rightarrow> message list \<Rightarrow> 'w world \<Rightarrow> (error + message list) \<times> 'w world" where
  "run_from llm END state w = (Inr state, w)"
| "run_from llm GENERATE state w =
     (case step llm GENERATE state w of
        (Inl e, w') \<Rightarrow> (Inl e, w')
      | (Inr state', w') \<Rightarrow> run_from llm (next_node GENERATE state') state' w')"
| "run_from llm REFLECT state w =
     (case step llm REFLECT state w of
        (Inl e, w') \<Rightarrow> (Inl e, w')
      | (Inr state', w') \<Rightarrow> run_from llm (next_node REFLECT state') state' w')"
  by pat_completeness auto

termination run_from
proof (relation "measure (\<lambda>(llm, n, state, w). budget n (length state))")
  have grows: "length state' = Suc (length state)"
    if "(Inr state', w') = step llm n state w" and "n \<noteq> END"
    for llm :: "'a llm" and n state w state' w'
    using that
    by (cases n)
       (auto simp: step_def run_node_def generate_node_def reflect_node_def chain_invoke_def
          add_messages_def Let_def split: prod.splits sum.splits)
  show "wf (measure (\<lambda>(llm :: 'a llm, n, state, w :: 'a world). budget n (length state)))"
    by simp
  show "((llm, next_node GENERATE state', state', w'), (llm, GENERATE, state, w))
      \<in> measure (\<lambda>(llm, n, state, w). budget n (length state))"
    if "(r, w') = step llm GENERATE state w" and "r = Inr state'"
    for llm :: "'a llm" and state w r w' state'
    using grows [of state' w' llm GENERATE state w] that
    by (simp add: should_continue_def) arith
  show "((llm, next_node REFLECT state', state', w'), (llm, REFLECT, state, w))
      \<in> measure (\<lambda>(llm, n, state, w). budget n (length state))"
    if "(r, w') = step llm REFLECT state w" and "r = Inr state'"
    for llm :: "'a llm" and state w r w' state'
    using grows [of state' w' llm REFLECT state w] that
    by simp
qed

text \<open>
  \<open>app.invoke(HumanMessage(...))\<close>: the input turn is stored by the same reducer into the
  empty conversation, and the run starts at the entry point.
\<close>

definition app_invoke :: "'w llm \<Rightarrow> message \<Rightarrow> 'w world \<Rightarrow> (error + message list) \<times> 'w world" where
  "app_invoke llm input w = run_from llm entry_point (add_messages [] [input]) w"

section \<open>Start-up: the credential\<close>

datatype secret_str = SecretStr string

fun get_secret_value :: "secret_str \<Rightarrow> string" where
  "get_secret_value (SecretStr v) = v"

text \<open>
  \<open>load_dotenv()\<close> copies the variables of the \<open>.env\<close> file into \<open>os.environ\<close>; a variable
  the process already has keeps its value.
\<close>

definition load_dotenv :: "(string \<rightharpoonup> string) \<Rightarrow> (string \<rightharpoonup> string) \<Rightarrow> (string \<rightharpoonup> string)" where
  "load_dotenv dotenv environ = dotenv ++ environ"

text \<open>Python's \<open>str\<close> of the result of \<open>os.environ.get\<close>.\<close>

fun str_of_get :: "string option \<Rightarrow> string" where
  "str_of_get None = ''None''"
| "str_of_get (Some v) = v"

text \<open>
  Importing chains.py (basic.py line 5) runs its top level: load the \<open>.env\<close> file, assert
  that the credential is there (the assertion is skipped when Python runs without
  \<open>__debug__\<close>), print it, construct the client. Constructing the client sends nothing
  to the model; whether it raises is the client library's business, here \<open>ctor\<close>.
\<close>

definition chains_module ::
  "bool \<Rightarrow> ((string \<rightharpoonup> string) \<Rightarrow> error option) \<Rightarrow> (string \<rightharpoonup> string) \<Rightarrow> (string \<rightharpoonup> string)
     \<Rightarrow> 'w world \<Rightarrow> (error + (string \<rightharpoonup> string)) \<times> 'w world" where
  "chains_module debug ctor dotenv environ w =
     (let environ1 = load_dotenv dotenv environ
      in if debug \<and> environ1 ''GOOGLE_API_KEY'' = None
         then (Inl (AssertionError ''GOOGLE_API_KEY not loaded from .env!''), w)
         else
           (let w1 = w\<lparr>trace := trace w @
                        [Print (''GOOGLE_API_KEY loaded: '' @ str_of_get (environ1 ''GOOGLE_API_KEY''))]\<rparr>
            in case ctor environ1 of
                 Some e \<Rightarrow> (Inl e, w1)
               | None \<Rightarrow> (Inr environ1, w1)))"

text \<open>basic.py from top to bottom.\<close>

definition main ::
  "bool \<Rightarrow> ((string \<rightharpoonup> string) \<Rightarrow> error option) \<Rightarrow> (string \<rightharpoonup> string) \<Rightarrow> 'w llm
     \<Rightarrow> (string \<rightharpoonup> string) \<Rightarrow> 'w world \<Rightarrow> (error + message list) \<times> 'w world" where
  "main debug ctor dotenv llm environ w =
     (case chains_module debug ctor dotenv environ w of
        (Inl e, w1) \<Rightarrow> (Inl e, w1)
      | (Inr environ1, w1) \<Rightarrow>
          (let environ2 = load_dotenv dotenv environ1
           in case environ2 ''GOOGLE_API_KEY'' of
                None \<Rightarrow> (Inl (KeyError ''GOOGLE_API_KEY''), w1)
              | Some v \<Rightarrow>
                  (let GOOGLE_API_KEY = SecretStr v;
                       api_key_str = get_secret_value GOOGLE_API_KEY
                   in case ctor environ2 of
                        Some e \<Rightarrow> (Inl e, w1)
                      | None \<Rightarrow>
                          (let w2 = w1\<lparr>trace := trace w1 @ [PrintGraph Mermaid, PrintGraph Ascii]\<rparr>
                           in case app_invoke llm (HumanMessage ''AI Agents taking over content creation'') w2 of
                                (Inl e, w3) \<Rightarrow> (Inl e, w3)
                              | (Inr response, w3) \<Rightarrow>
                                  (Inr response, w3\<lparr>trace := trace w3 @ [PrintState response]\<rparr>)))))"

section \<open>Reading a trace\<close>

fun is_call :: "chain \<Rightarrow> event \<Rightarrow> bool" where
  "is_call c (ModelCall c' prompt) = (c = c')"
| "is_call c (Print l) = False"
| "is_call c (PrintGraph g) = False"
| "is_call c (PrintState s) = False"
| "is_call c (Update n s) = False"

definition calls :: "chain \<Rightarrow> event list \<Rightarrow> nat" where
  "calls c tr = length (filter (is_call c) tr)"

fun lengths_after :: "node \<Rightarrow> event list \<Rightarrow> nat list" where
  "lengths_after n [] = []"
| "lengths_after n (Update n' s # tr) =
     (if n' = n then length s # lengths_after n tr else lengths_after n tr)"
| "lengths_after n (Print l # tr) = lengths_after n tr"
| "lengths_after n (PrintGraph g # tr) = lengths_after n tr"
| "lengths_after n (PrintState s # tr) = lengths_after n tr"
| "lengths_after n (ModelCall c p # tr) = lengths_after n tr"

section \<open>Stand-ins for the hosted model\<close>

text \<open>
  Two services to run the program against: one answers every call and counts them, the
  other one refuses the call whose number it is given.
\<close>

definition steady_llm :: "nat llm" where
  "steady_llm prompt k = (Inr (AIMessage ''draft''), Suc k)"

definition flaky_llm :: "nat \<Rightarrow> nat llm" where
  "flaky_llm bad prompt k =
     (if k = bad then Inl (RemoteError ''quota exceeded'') else Inr (AIMessage ''draft''), Suc k)"

section \<open>One step of the graph\<close>

lemma step_generate_ok:
  assumes "llm (generation_prompt state) (remote w) = (Inr m, s')"
  shows "step llm GENERATE state w =
     (Inr (state @ [m]),
      \<lparr>remote = s', trace = trace w @ [ModelCall generation_chain (generation_prompt state),
                                         Update GENERATE (state @ [m])]\<rparr>)"
  using assms
  by (simp add: step_def run_node_def generate_node_def chain_invoke_def add_messages_def Let_def)

lemma step_reflect_ok:
  assumes "llm (reflection_prompt state) (remote w) = (Inr m, s')"
  shows "step llm REFLECT state w =
     (Inr (state @ [HumanMessage (content m)]),
      \<lparr>remote = s', trace = trace w @ [ModelCall reflection_chain (reflection_prompt state),
                                         Update REFLECT (state @ [HumanMessage (content m)])]\<rparr>)"
  using assms
  by (simp add: step_def run_node_def reflect_node_def chain_invoke_def add_messages_def Let_def)

lemma step_generate_fail:
  assumes "llm (generation_prompt state) (remote w) = (Inl e, s')"
  shows "step llm GENERATE state w =
     (Inl e, \<lparr>remote = s', trace = trace w @ [ModelCall generation_chain (generation_prompt state)]\<rparr>)"
  using assms
  by (simp add: step_def run_node_def generate_node_def chain_invoke_def)

lemma step_reflect_fail:
  assumes "llm (reflection_prompt state) (remote w) = (Inl e, s')"
  shows "step llm REFLECT state w =
     (Inl e, \<lparr>remote = s', trace = trace w @ [ModelCall reflection_chain (reflection_prompt state)]\<rparr>)"
  using assms
  by (simp add: step_def run_node_def reflect_node_def chain_invoke_def)

lemma step_end: "step llm END state w = (Inr state, w\<lparr>trace := trace w @ [Update END state]\<rparr>)"
  by (simp add: step_def run_node_def add_messages_def)

text \<open>A step that succeeds has added one turn at the end, whichever node ran.\<close>

lemma step_ok_cases:
  assumes "step llm n state w = (Inr state', w')" and "n \<noteq> END"
  obtains m where "state' = state @ [m]"
proof (cases n)
  case GENERATE
  obtain r s' where l: "llm (generation_prompt state) (remote w) = (r, s')" by force
  show ?thesis
  proof (cases r)
    case (Inl e)
    with l assms GENERATE show ?thesis by (simp add: step_generate_fail)
  next
    case (Inr m)
    with l assms GENERATE that show ?thesis by (auto simp add: step_generate_ok)
  qed
next
  case REFLECT
  obtain r s' where l: "llm (reflection_prompt state) (remote w) = (r, s')" by force
  show ?thesis
  proof (cases r)
    case (Inl e)
    with l assms REFLECT show ?thesis by (simp add: step_reflect_fail)
  next
    case (Inr m)
    with l assms REFLECT that show ?thesis by (auto simp add: step_reflect_ok)
  qed
next
  case END
  with assms show ?thesis by simp
qed

lemma run_from_unfold:
  assumes "step llm n state w = (Inr state', w')" and "n \<noteq> END"
  shows "run_from llm n state w = run_from llm (next_node n state') state' w'"
  using assms by (cases n) simp_all

lemma run_from_fail:
  assumes "step llm n state w = (Inl e, w')"
  shows "run_from llm n state w = (Inl e, w')"
  using assms by (cases n) (simp_all add: step_end)

section \<open>Whole runs\<close>

lemma calls_append: "calls c (xs @ ys) = calls c xs + calls c ys"
  by (simp add: calls_def)

lemma lengths_after_append: "lengths_after n (xs @ ys) = lengths_after n xs @ lengths_after n ys"
  by (induction n xs rule: lengths_after.induct) simp_all

lemma app_invoke_run_from: "app_invoke llm input w = run_from llm GENERATE [input] w"
  by (simp add: app_invoke_def entry_point_def add_messages_def)

text \<open>A generation step on a conversation that reaches more than 6 turns ends the run.\<close>

lemma run_from_last_generation:
  assumes "run_from llm GENERATE state w = (Inr final, w')" and "6 \<le> length state"
  shows "\<exists>m. final = state @ [m]
    \<and> trace w' = trace w @ [ModelCall generation_chain (generation_prompt state),
                             Update GENERATE (state @ [m])]"
proof -
  obtain r s1 where l: "llm (generation_prompt state) (remote w) = (r, s1)" by force
  show ?thesis
  proof (cases r)
    case (Inl e)
    with l assms(1) show ?thesis by (simp add: step_generate_fail)
  next
    case (Inr m)
    with l assms show ?thesis
      by (auto simp add: step_generate_ok should_continue_def)
  qed
qed

text \<open>On a shorter conversation a generation step is followed by a reflection step.\<close>

lemma run_from_round:
  assumes "run_from llm GENERATE state w = (Inr final, w')" and "length state < 6"
  shows "\<exists>m c w2.
     run_from llm GENERATE (state @ [m, HumanMessage c]) w2 = (Inr final, w')
     \<and> trace w2 = trace w @ [ModelCall generation_chain (generation_prompt state),
                              Update GENERATE (state @ [m]),
                              ModelCall reflection_chain (reflection_prompt (state @ [m])),
                              Update REFLECT (state @ [m, HumanMessage c])]"
proof -
  obtain r s1 where l: "llm (generation_prompt state) (remote w) = (r, s1)" by force
  show ?thesis
  proof (cases r)
    case (Inl e)
    with l assms(1) show ?thesis by (simp add: step_generate_fail)
  next
    case (Inr m)
    let ?w1 = "\<lparr>remote = s1, trace = trace w @ [ModelCall generation_chain (generation_prompt state),
                                                 Update GENERATE (state @ [m])]\<rparr>"
    from Inr l assms have run1: "run_from llm REFLECT (state @ [m]) ?w1 = (Inr final, w')"
      by (simp add: step_generate_ok should_continue_def)
    obtain r' s2 where l': "llm (reflection_prompt (state @ [m])) (remote ?w1) = (r', s2)" by force
    show ?thesis
    proof (cases r')
      case (Inl e)
      with l' run1 show ?thesis by (simp add: step_reflect_fail)
    next
      case (Inr reply)
      let ?w2 = "\<lparr>remote = s2, trace = trace w @ [ModelCall generation_chain (generation_prompt state),
                                        Update GENERATE (state @ [m]),
                                        ModelCall reflection_chain (reflection_prompt (state @ [m])),
                                        Update REFLECT (state @ [m, HumanMessage (content reply)])]\<rparr>"
      from Inr l' run1 have
        "run_from llm GENERATE (state @ [m, HumanMessage (content reply)]) ?w2 = (Inr final, w')"
        by (simp add: step_reflect_ok)
      moreover have "trace ?w2 = trace w @ [ModelCall generation_chain (generation_prompt state),
                                        Update GENERATE (state @ [m]),
                                        ModelCall reflection_chain (reflection_prompt (state @ [m])),
                                        Update REFLECT (state @ [m, HumanMessage (content reply)])]"
        by simp
      ultimately show ?thesis by blast
    qed
  qed
qed

text \<open>The whole run from one turn, when it returns a conversation.\<close>

lemma one_turn_run_shape:
  assumes "run_from llm GENERATE [t] w = (Inr final, w')"
  shows "\<exists>m1 c2 m3 c4 m5 c6 m7.
     final = [t, m1, HumanMessage c2, m3, HumanMessage c4, m5, HumanMessage c6, m7]
     \<and> trace w' = trace w @
        [ModelCall generation_chain (generation_prompt [t]),
         Update GENERATE [t, m1],
         ModelCall reflection_chain (reflection_prompt [t, m1]),
         Update REFLECT [t, m1, HumanMessage c2],
         ModelCall generation_chain (generation_prompt [t, m1, HumanMessage c2]),
         Update GENERATE [t, m1, HumanMessage c2, m3],
         ModelCall reflection_chain (reflection_prompt [t, m1, HumanMessage c2, m3]),
         Update REFLECT [t, m1, HumanMessage c2, m3, HumanMessage c4],
         ModelCall generation_chain (generation_prompt [t, m1, HumanMessage c2, m3, HumanMessage c4]),
         Update GENERATE [t, m1, HumanMessage c2, m3, HumanMessage c4, m5],
         ModelCall reflection_chain (reflection_prompt [t, m1, HumanMessage c2, m3, HumanMessage c4, m5]),
         Update REFLECT [t, m1, HumanMessage c2, m3, HumanMessage c4, m5, HumanMessage c6],
         ModelCall generation_chain
           (generation_prompt [t, m1, HumanMessage c2, m3, HumanMessage c4, m5, HumanMessage c6]),
         Update GENERATE [t, m1, HumanMessage c2, m3, HumanMessage c4, m5, HumanMessage c6, m7]]"
proof -
  have "length [t] < 6" by simp
  from run_from_round [OF assms this] obtain m1 c2 wa where
    a: "run_from llm GENERATE [t, m1, HumanMessage c2] wa = (Inr final, w')" and
    ta: "trace wa = trace w @ [ModelCall generation_chain (generation_prompt [t]),
         Update GENERATE [t, m1],
         ModelCall reflection_chain (reflection_prompt [t, m1]),
         Update REFLECT [t, m1, HumanMessage c2]]"
    by auto
  have "length [t, m1, HumanMessage c2] < 6" by simp
  from run_from_round [OF a this] obtain m3 c4 wb where
    b: "run_from llm GENERATE [t, m1, HumanMessage c2, m3, HumanMessage c4] wb = (Inr final, w')" and
    tb: "trace wb = trace wa @ [ModelCall generation_chain (generation_prompt [t, m1, HumanMessage c2]),
         Update GENERATE [t, m1, HumanMessage c2, m3],
         ModelCall reflection_chain (reflection_prompt [t, m1, HumanMessage c2, m3]),
         Update REFLECT [t, m1, HumanMessage c2, m3, HumanMessage c4]]"
    by auto
  have "length [t, m1, HumanMessage c2, m3, HumanMessage c4] < 6" by simp
  from run_from_round [OF b this] obtain m5 c6 wc where
    c: "run_from llm GENERATE [t, m1, HumanMessage c2, m3, HumanMessage c4, m5, HumanMessage c6] wc
          = (Inr final, w')" and
    tc: "trace wc = trace wb @
        [ModelCall generation_chain (generation_prompt [t, m1, HumanMessage c2, m3, HumanMessage c4]),
         Update GENERATE [t, m1, HumanMessage c2, m3, HumanMessage c4, m5],
         ModelCall reflection_chain (reflection_prompt [t, m1, HumanMessage c2, m3, HumanMessage c4, m5]),
         Update REFLECT [t, m1, HumanMessage c2, m3, HumanMessage c4, m5, HumanMessage c6]]"
    by auto
  have "6 \<le> length [t, m1, HumanMessage c2, m3, HumanMessage c4, m5, HumanMessage c6]" by simp
  from run_from_last_generation [OF c this] obtain m7 where
    d: "final = [t, m1, HumanMessage c2, m3, HumanMessage c4, m5, HumanMessage c6, m7]" and
    td: "trace w' = trace wc @
        [ModelCall generation_chain
           (generation_prompt [t, m1, HumanMessage c2, m3, HumanMessage c4, m5, HumanMessage c6]),
         Update GENERATE [t, m1, HumanMessage c2, m3, HumanMessage c4, m5, HumanMessage c6, m7]]"
    by auto
  from d ta tb tc td show ?thesis by simp
qed

text \<open>A service that answers every call lets every run return a conversation.\<close>

lemma run_from_succeeds:
  assumes "\<And>prompt s. \<exists>reply s'. llm prompt s = (Inr reply, s')"
  shows "\<exists>final w'. run_from llm n state w = (Inr final, w')"
  using assms
proof (induction llm n state w rule: run_from.induct)
  case (1 llm state w)
  show ?case by simp
next
  case (2 llm state w)
  from "2.prems" obtain reply s' where "llm (generation_prompt state) (remote w) = (Inr reply, s')"
    by blast
  then obtain w1 where s: "step llm GENERATE state w = (Inr (state @ [reply]), w1)"
    by (simp add: step_generate_ok)
  from "2.IH" [OF s [symmetric] refl "2.prems"] s show ?case by simp
next
  case (3 llm state w)
  from "3.prems" obtain reply s' where "llm (reflection_prompt state) (remote w) = (Inr reply, s')"
    by blast
  then obtain w1 where s: "step llm REFLECT state w = (Inr (state @ [HumanMessage (content reply)]), w1)"
    by (simp add: step_reflect_ok)
  from "3.IH" [OF s [symmetric] refl "3.prems"] s show ?case by simp
qed

section \<open>Start-up and traces\<close>

lemma load_dotenv_twice: "load_dotenv dotenv (load_dotenv dotenv environ) = load_dotenv dotenv environ"
  by (rule ext) (simp add: load_dotenv_def map_add_def split: option.splits)

lemma step_trace: "\<exists>tr. trace (snd (step llm n state w)) = trace w @ tr"
proof (cases n)
  case GENERATE
  obtain r s' where l: "llm (generation_prompt state) (remote w) = (r, s')" by force
  then show ?thesis using GENERATE
    by (cases r) (simp_all add: step_generate_ok step_generate_fail)
next
  case REFLECT
  obtain r s' where l: "llm (reflection_prompt state) (remote w) = (r, s')" by force
  then show ?thesis using REFLECT
    by (cases r) (simp_all add: step_reflect_ok step_reflect_fail)
next
  case END
  then show ?thesis by (simp add: step_end)
qed

lemma run_from_trace: "\<exists>tr. trace (snd (run_from llm n state w)) = trace w @ tr"
proof (induction llm n state w rule: run_from.induct)
  case (1 llm state w)
  show ?case by simp
next
  case (2 llm state w)
  obtain r w1 where s: "step llm GENERATE state w = (r, w1)" by force
  from step_trace [of llm GENERATE state w] s obtain tr1 where t1: "trace w1 = trace w @ tr1"
    by auto
  show ?case
  proof (cases r)
    case (Inl e)
    with s t1 show ?thesis by simp
  next
    case (Inr state1)
    from "2.IH" [OF s [symmetric] Inr] obtain tr2 where
      "trace (snd (run_from llm (next_node GENERATE state1) state1 w1)) = trace w1 @ tr2" ..
    with s Inr t1 show ?thesis by simp
  qed
next
  case (3 llm state w)
  obtain r w1 where s: "step llm REFLECT state w = (r, w1)" by force
  from step_trace [of llm REFLECT state w] s obtain tr1 where t1: "trace w1 = trace w @ tr1"
    by auto
  show ?case
  proof (cases r)
    case (Inl e)
    with s t1 show ?thesis by simp
  next
    case (Inr state1)
    from "3.IH" [OF s [symmetric] Inr] obtain tr2 where
      "trace (snd (run_from llm (next_node REFLECT state1) state1 w1)) = trace w1 @ tr2" ..
    with s Inr t1 show ?thesis by simp
  qed
qed

section \<open>The claims\<close>

text \<open>
  C2. The loop controller is a state machine whose initial state is the generation step.
  Right after a generation step the run ends exactly when the conversation, with the
  generated turn in it, has more than 6 turns, and goes to the reflection step exactly
  when it has not; after a reflection step the run always goes back to the generation
  step, never to termination.
\<close>

theorem loop_controller_state_machine:
  "entry_point = GENERATE
   \<and> app_invoke llm input w = run_from llm GENERATE [input] w
   \<and> (next_node GENERATE state' = END \<longleftrightarrow> length state' > 6)
   \<and> (next_node GENERATE state' = REFLECT \<longleftrightarrow> \<not> length state' > 6)
   \<and> next_node REFLECT state' = GENERATE
   \<and> next_node REFLECT state' \<noteq> END
   \<and> (step llm GENERATE state w = (Inr state', w') \<longrightarrow>
        run_from llm GENERATE state w
          = (if length state' > 6 then (Inr state', w') else run_from llm REFLECT state' w'))
   \<and> (step llm REFLECT state w = (Inr state', w') \<longrightarrow>
        run_from llm REFLECT state w = run_from llm GENERATE state' w')"
  by (simp add: entry_point_def should_continue_def app_invoke_run_from)

theorem loop_controller_state_machine_witness:
  "step steady_llm GENERATE [HumanMessage ''topic''] \<lparr>remote = 0, trace = []\<rparr>
     = (Inr [HumanMessage ''topic'', AIMessage ''draft''],
        \<lparr>remote = 1, trace = [ModelCall generation_chain (generation_prompt [HumanMessage ''topic'']),
            Update GENERATE [HumanMessage ''topic'', AIMessage ''draft'']]\<rparr>)
   \<and> run_from steady_llm GENERATE [HumanMessage ''topic''] \<lparr>remote = 0, trace = []\<rparr>
     = run_from steady_llm REFLECT [HumanMessage ''topic'', AIMessage ''draft'']
        \<lparr>remote = 1, trace = [ModelCall generation_chain (generation_prompt [HumanMessage ''topic'']),
            Update GENERATE [HumanMessage ''topic'', AIMessage ''draft'']]\<rparr>
   \<and> step steady_llm REFLECT [HumanMessage ''topic''] \<lparr>remote = 0, trace = []\<rparr>
     = (Inr [HumanMessage ''topic'', HumanMessage ''draft''],
        \<lparr>remote = 1, trace = [ModelCall reflection_chain (reflection_prompt [HumanMessage ''topic'']),
            Update REFLECT [HumanMessage ''topic'', HumanMessage ''draft'']]\<rparr>)
   \<and> run_from steady_llm REFLECT [HumanMessage ''topic''] \<lparr>remote = 0, trace = []\<rparr>
     = run_from steady_llm GENERATE [HumanMessage ''topic'', HumanMessage ''draft'']
        \<lparr>remote = 1, trace = [ModelCall reflection_chain (reflection_prompt [HumanMessage ''topic'']),
            Update REFLECT [HumanMessage ''topic'', HumanMessage ''draft'']]\<rparr>"
proof -
  have g: "step steady_llm GENERATE [HumanMessage ''topic''] \<lparr>remote = 0, trace = []\<rparr>
     = (Inr [HumanMessage ''topic'', AIMessage ''draft''],
        \<lparr>remote = 1, trace = [ModelCall generation_chain (generation_prompt [HumanMessage ''topic'']),
            Update GENERATE [HumanMessage ''topic'', AIMessage ''draft'']]\<rparr>)"
    by (simp add: step_generate_ok steady_llm_def)
  have r: "step steady_llm REFLECT [HumanMessage ''topic''] \<lparr>remote = 0, trace = []\<rparr>
     = (Inr [HumanMessage ''topic'', HumanMessage ''draft''],
        \<lparr>remote = 1, trace = [ModelCall reflection_chain (reflection_prompt [HumanMessage ''topic'']),
            Update REFLECT [HumanMessage ''topic'', HumanMessage ''draft'']]\<rparr>)"
    by (simp add: step_reflect_ok steady_llm_def)
  from loop_controller_state_machine [of steady_llm _ "\<lparr>remote = 0, trace = []\<rparr>"
         "[HumanMessage ''topic'', AIMessage ''draft'']" "[HumanMessage ''topic'']"] g
  have "run_from steady_llm GENERATE [HumanMessage ''topic''] \<lparr>remote = 0, trace = []\<rparr>
     = run_from steady_llm REFLECT [HumanMessage ''topic'', AIMessage ''draft'']
        \<lparr>remote = 1, trace = [ModelCall generation_chain (generation_prompt [HumanMessage ''topic'']),
            Update GENERATE [HumanMessage ''topic'', AIMessage ''draft'']]\<rparr>"
    by simp
  moreover
  from loop_controller_state_machine [of steady_llm _ "\<lparr>remote = 0, trace = []\<rparr>"
         "[HumanMessage ''topic'', HumanMessage ''draft'']" "[HumanMessage ''topic'']"] r
  have "run_from steady_llm REFLECT [HumanMessage ''topic''] \<lparr>remote = 0, trace = []\<rparr>
     = run_from steady_llm GENERATE [HumanMessage ''topic'', HumanMessage ''draft'']
        \<lparr>remote = 1, trace = [ModelCall reflection_chain (reflection_prompt [HumanMessage ''topic'']),
            Update REFLECT [HumanMessage ''topic'', HumanMessage ''draft'']]\<rparr>"
    by simp
  ultimately show ?thesis using g r by simp
qed

text \<open>
  C3. Whenever a generation or a reflection step succeeds, the conversation after it is
  one turn longer than the conversation before it, and the loop goes on from the edge
  chosen on that longer conversation.
\<close>

theorem step_appends_one_turn:
  assumes "n = GENERATE \<or> n = REFLECT"
    and "step llm n state w = (Inr state', w')"
  shows "length state' = length state + 1
         \<and> run_from llm n state w = run_from llm (next_node n state') state' w'"
proof -
  from assms(1) have n: "n \<noteq> END" by auto
  from step_ok_cases [OF assms(2) n] obtain m where "state' = state @ [m]" .
  then have "length state' = length state + 1" by simp
  moreover have "run_from llm n state w = run_from llm (next_node n state') state' w'"
    using assms(2) n by (rule run_from_unfold)
  ultimately show ?thesis by simp
qed

theorem step_appends_one_turn_witness:
  "(REFLECT = GENERATE \<or> REFLECT = REFLECT)
   \<and> step steady_llm REFLECT [HumanMessage ''topic'', AIMessage ''post''] \<lparr>remote = 1, trace = []\<rparr>
      = (Inr [HumanMessage ''topic'', AIMessage ''post'', HumanMessage ''draft''],
         \<lparr>remote = 2, trace = [ModelCall reflection_chain (reflection_prompt [HumanMessage ''topic'', AIMessage ''post'']),
            Update REFLECT [HumanMessage ''topic'', AIMessage ''post'', HumanMessage ''draft'']]\<rparr>)
   \<and> length [HumanMessage ''topic'', AIMessage ''post'', HumanMessage ''draft'']
        = length [HumanMessage ''topic'', AIMessage ''post''] + 1"
  using step_appends_one_turn [of REFLECT steady_llm "[HumanMessage ''topic'', AIMessage ''post'']"
      "\<lparr>remote = 1, trace = []\<rparr>" "[HumanMessage ''topic'', AIMessage ''post'', HumanMessage ''draft'']"]
  by (simp add: step_reflect_ok steady_llm_def)


lemma run_from_extends:
  "run_from llm n state w = (Inr final, w') \<Longrightarrow> prefix state final"
proof (induction llm n state w rule: run_from.induct)
  case (1 llm state w)
  then show ?case by simp
next
  case (2 llm state w)
  obtain r w1 where s: "step llm GENERATE state w = (r, w1)" by force
  show ?case
  proof (cases r)
    case (Inl e)
    with s "2.prems" show ?thesis by simp
  next
    case (Inr state1)
    with s "2.prems" have "run_from llm (next_node GENERATE state1) state1 w1 = (Inr final, w')"
      by simp
    with "2.IH" [of r w1 state1] s Inr have "prefix state1 final" by simp
    moreover from s Inr obtain m where "state1 = state @ [m]"
      by (auto elim: step_ok_cases)
    ultimately show ?thesis by (auto dest: append_prefixD)
  qed
next
  case (3 llm state w)
  obtain r w1 where s: "step llm REFLECT state w = (r, w1)" by force
  show ?case
  proof (cases r)
    case (Inl e)
    with s "3.prems" show ?thesis by simp
  next
    case (Inr state1)
    with s "3.prems" have "run_from llm (next_node REFLECT state1) state1 w1 = (Inr final, w')"
      by simp
    with "3.IH" [of r w1 state1] s Inr have "prefix state1 final" by simp
    moreover from s Inr obtain m where "state1 = state @ [m]"
      by (auto elim: step_ok_cases)
    ultimately show ?thesis by (auto dest: append_prefixD)
  qed
qed

text \<open>
  C4. The conversation after a step has the conversation before the step as a prefix:
  the earlier turns are all there, unchanged and at the same positions. The same holds
  between the conversation a run starts from and the one it returns.
\<close>

theorem steps_only_append:
  "(step llm n state w = (Inr state', w') \<longrightarrow>
      prefix state state' \<and> take (length state) state' = state
      \<and> (\<forall>i < length state. state' ! i = state ! i))
   \<and> (run_from llm n state w = (Inr final, w'') \<longrightarrow> prefix state final)"
proof (intro conjI impI)
  assume s: "step llm n state w = (Inr state', w')"
  have "\<exists>ms. state' = state @ ms"
  proof (cases "n = END")
    case True
    with s show ?thesis by (simp add: step_end)
  next
    case False
    from step_ok_cases [OF s False] show ?thesis by blast
  qed
  then obtain ms where ms: "state' = state @ ms" ..
  show "prefix state state'" using ms by simp
  show "take (length state) state' = state" using ms by simp
  show "\<forall>i < length state. state' ! i = state ! i" using ms by (simp add: nth_append)
next
  assume "run_from llm n state w = (Inr final, w'')"
  then show "prefix state final" by (rule run_from_extends)
qed

theorem steps_only_append_witness:
  "step steady_llm GENERATE [HumanMessage ''topic''] \<lparr>remote = 0, trace = []\<rparr>
     = (Inr [HumanMessage ''topic'', AIMessage ''draft''],
        \<lparr>remote = 1, trace = [ModelCall generation_chain (generation_prompt [HumanMessage ''topic'']),
            Update GENERATE [HumanMessage ''topic'', AIMessage ''draft'']]\<rparr>)
   \<and> prefix [HumanMessage ''topic''] [HumanMessage ''topic'', AIMessage ''draft'']
   \<and> take (length [HumanMessage ''topic'']) [HumanMessage ''topic'', AIMessage ''draft''] = [HumanMessage ''topic'']"
  using steps_only_append [of steady_llm GENERATE "[HumanMessage ''topic'']" "\<lparr>remote = 0, trace = []\<rparr>"
      "[HumanMessage ''topic'', AIMessage ''draft'']"]
  by (simp add: step_generate_ok steady_llm_def)

text \<open>
  C5. The turn appended by the reflection step is a human turn whose text is the content
  of the model's reply; the turn appended by the generation step is the model's reply
  itself, so an assistant reply stays an assistant turn with the same text.
\<close>

theorem reflection_retags_reply_as_human:
  "(llm (reflection_prompt state) (remote w) = (Inr reply, s') \<longrightarrow>
      (\<exists>turn. fst (step llm REFLECT state w) = Inr (state @ [turn])
          \<and> turn = HumanMessage (content reply)
          \<and> role_of turn = Human \<and> content turn = content reply))
   \<and> (llm (generation_prompt state) (remote w) = (Inr reply, s') \<longrightarrow>
      (\<exists>turn. fst (step llm GENERATE state w) = Inr (state @ [turn])
          \<and> turn = reply
          \<and> (reply = AIMessage text \<longrightarrow> role_of turn = Assistant \<and> content turn = text)))"
  by (auto simp add: step_reflect_ok step_generate_ok)

theorem reflection_retags_reply_as_human_witness:
  "steady_llm (reflection_prompt [HumanMessage ''topic'', AIMessage ''post'']) 1 = (Inr (AIMessage ''draft''), 2)
   \<and> fst (step steady_llm REFLECT [HumanMessage ''topic'', AIMessage ''post''] \<lparr>remote = 1, trace = []\<rparr>)
       = Inr [HumanMessage ''topic'', AIMessage ''post'', HumanMessage ''draft'']
   \<and> steady_llm (generation_prompt [HumanMessage ''topic'']) 0 = (Inr (AIMessage ''draft''), 1)
   \<and> fst (step steady_llm GENERATE [HumanMessage ''topic''] \<lparr>remote = 0, trace = []\<rparr>)
       = Inr [HumanMessage ''topic'', AIMessage ''draft'']"
  using reflection_retags_reply_as_human [of steady_llm "[HumanMessage ''topic'', AIMessage ''post'']"
          "\<lparr>remote = 1, trace = []\<rparr>" "AIMessage ''draft''" 2 "''draft''"]
        reflection_retags_reply_as_human [of steady_llm "[HumanMessage ''topic'']"
          "\<lparr>remote = 0, trace = []\<rparr>" "AIMessage ''draft''" 1 "''draft''"]
  by (simp add: steady_llm_def)

text \<open>
  C8. Against a service that answers every call, the run from a one-turn conversation
  returns a conversation of exactly 8 turns after exactly 4 generation calls and 3
  reflection calls; the conversation has 2, 4, 6 and 8 turns after the generation steps.
\<close>

theorem one_turn_run_makes_eight_turns:
  assumes "\<And>prompt s. \<exists>reply s'. llm prompt s = (Inr reply, s')"
  shows "\<exists>final w'. app_invoke llm input w = (Inr final, w')
     \<and> length final = 8
     \<and> calls generation_chain (trace w') = calls generation_chain (trace w) + 4
     \<and> calls reflection_chain (trace w') = calls reflection_chain (trace w) + 3
     \<and> lengths_after GENERATE (trace w') = lengths_after GENERATE (trace w) @ [2, 4, 6, 8]"
proof -
  have "\<exists>final w'. run_from llm GENERATE [input] w = (Inr final, w')"
    by (rule run_from_succeeds) (rule assms)
  then obtain final w' where r: "run_from llm GENERATE [input] w = (Inr final, w')" by blast
  from one_turn_run_shape [OF r] obtain m1 c2 m3 c4 m5 c6 m7 where
    f: "final = [input, m1, HumanMessage c2, m3, HumanMessage c4, m5, HumanMessage c6, m7]" and
    t: "trace w' = trace w @
        [ModelCall generation_chain (generation_prompt [input]),
         Update GENERATE [input, m1],
         ModelCall reflection_chain (reflection_prompt [input, m1]),
         Update REFLECT [input, m1, HumanMessage c2],
         ModelCall generation_chain (generation_prompt [input, m1, HumanMessage c2]),
         Update GENERATE [input, m1, HumanMessage c2, m3],
         ModelCall reflection_chain (reflection_prompt [input, m1, HumanMessage c2, m3]),
         Update REFLECT [input, m1, HumanMessage c2, m3, HumanMessage c4],
         ModelCall generation_chain (generation_prompt [input, m1, HumanMessage c2, m3, HumanMessage c4]),
         Update GENERATE [input, m1, HumanMessage c2, m3, HumanMessage c4, m5],
         ModelCall reflection_chain (reflection_prompt [input, m1, HumanMessage c2, m3, HumanMessage c4, m5]),
         Update REFLECT [input, m1, HumanMessage c2, m3, HumanMessage c4, m5, HumanMessage c6],
         ModelCall generation_chain
           (generation_prompt [input, m1, HumanMessage c2, m3, HumanMessage c4, m5, HumanMessage c6]),
         Update GENERATE [input, m1, HumanMessage c2, m3, HumanMessage c4, m5, HumanMessage c6, m7]]"
    by blast
  have "length final = 8" using f by simp
  moreover have "calls generation_chain (trace w') = calls generation_chain (trace w) + 4"
    unfolding t calls_append by (simp add: calls_def)
  moreover have "calls reflection_chain (trace w') = calls reflection_chain (trace w) + 3"
    unfolding t calls_append by (simp add: calls_def)
  moreover have "lengths_after GENERATE (trace w') = lengths_after GENERATE (trace w) @ [2, 4, 6, 8]"
    unfolding t lengths_after_append by simp
  ultimately show ?thesis using r by (simp add: app_invoke_run_from)
qed

theorem one_turn_run_makes_eight_turns_witness:
  "(\<forall>prompt s. \<exists>reply s'. steady_llm prompt s = (Inr reply, s'))
   \<and> (\<exists>final w'. app_invoke steady_llm (HumanMessage ''AI Agents taking over content creation'')
                      \<lparr>remote = 0, trace = []\<rparr> = (Inr final, w')
        \<and> length final = 8
        \<and> calls generation_chain (trace w') = 4
        \<and> calls reflection_chain (trace w') = 3
        \<and> lengths_after GENERATE (trace w') = [2, 4, 6, 8])"
  using one_turn_run_makes_eight_turns [of steady_llm "HumanMessage ''AI Agents taking over content creation''"
      "\<lparr>remote = 0, trace = []\<rparr>"]
  by (simp add: steady_llm_def calls_def)

text \<open>
  C1, as the code has it. A run that starts from one input turn, with the threshold at 6,
  and returns a conversation has made exactly 4 generation calls and 3 reflection calls.
\<close>

theorem one_turn_run_call_counts:
  assumes "app_invoke llm input w = (Inr final, w')"
  shows "calls generation_chain (trace w') = calls generation_chain (trace w) + 4
     \<and> calls reflection_chain (trace w') = calls reflection_chain (trace w) + 3"
proof -
  from assms have r: "run_from llm GENERATE [input] w = (Inr final, w')"
    by (simp add: app_invoke_run_from)
  from one_turn_run_shape [OF r] obtain tr where t: "trace w' = trace w @ tr"
    and "calls generation_chain tr = 4" and "calls reflection_chain tr = 3"
    by (auto simp add: calls_def)
  then show ?thesis by (simp add: calls_append)
qed

theorem one_turn_run_call_counts_witness:
  "app_invoke steady_llm (HumanMessage ''AI Agents taking over content creation'') \<lparr>remote = 0, trace = []\<rparr>
     = (Inr [HumanMessage ''AI Agents taking over content creation'', AIMessage ''draft'',
             HumanMessage ''draft'', AIMessage ''draft'', HumanMessage ''draft'', AIMessage ''draft'',
             HumanMessage ''draft'', AIMessage ''draft''],
        snd (app_invoke steady_llm (HumanMessage ''AI Agents taking over content creation'')
               \<lparr>remote = 0, trace = []\<rparr>))
   \<and> calls generation_chain
         (trace (snd (app_invoke steady_llm (HumanMessage ''AI Agents taking over content creation'')
                        \<lparr>remote = 0, trace = []\<rparr>))) = 4
   \<and> calls reflection_chain
         (trace (snd (app_invoke steady_llm (HumanMessage ''AI Agents taking over content creation'')
                        \<lparr>remote = 0, trace = []\<rparr>))) = 3"
proof -
  have run: "app_invoke steady_llm (HumanMessage ''AI Agents taking over content creation'') \<lparr>remote = 0, trace = []\<rparr>
     = (Inr [HumanMessage ''AI Agents taking over content creation'', AIMessage ''draft'',
             HumanMessage ''draft'', AIMessage ''draft'', HumanMessage ''draft'', AIMessage ''draft'',
             HumanMessage ''draft'', AIMessage ''draft''],
        snd (app_invoke steady_llm (HumanMessage ''AI Agents taking over content creation'')
               \<lparr>remote = 0, trace = []\<rparr>))"
    by (simp add: app_invoke_def entry_point_def step_def run_node_def generate_node_def
      reflect_node_def chain_invoke_def add_messages_def steady_llm_def should_continue_def Let_def)
  from one_turn_run_call_counts [OF run] run show ?thesis by (simp add: calls_def)
qed

text \<open>
  The figures of 3 generation calls and 2 reflection calls do not hold: against a service
  that answers every call, the run from the program's own input turn makes 4 and 3.
\<close>

theorem one_turn_run_counterexample:
  "\<not> (calls generation_chain
         (trace (snd (app_invoke steady_llm (HumanMessage ''AI Agents taking over content creation'')
                        \<lparr>remote = 0, trace = []\<rparr>))) = 3
      \<and> calls reflection_chain
         (trace (snd (app_invoke steady_llm (HumanMessage ''AI Agents taking over content creation'')
                        \<lparr>remote = 0, trace = []\<rparr>))) = 2)"
  by (simp add: app_invoke_def entry_point_def step_def run_node_def generate_node_def
      reflect_node_def chain_invoke_def add_messages_def steady_llm_def should_continue_def
      Let_def calls_def)

text \<open>
  C6. If \<open>GOOGLE_API_KEY\<close> is not in \<open>os.environ\<close> when the start-up code looks for it
  (it is neither inherited by the process nor in the \<open>.env\<close> file that \<open>load_dotenv\<close> has
  read), the program ends with an error and has sent nothing to the model: with
  assertions on, the \<open>assert\<close> of chains.py fails before anything else happens.
\<close>

theorem missing_credential_is_fatal:
  assumes "load_dotenv dotenv environ ''GOOGLE_API_KEY'' = None"
  shows "(\<exists>e. fst (main debug ctor dotenv llm environ w) = Inl e)
     \<and> calls generation_chain (trace (snd (main debug ctor dotenv llm environ w)))
         = calls generation_chain (trace w)
     \<and> calls reflection_chain (trace (snd (main debug ctor dotenv llm environ w)))
         = calls reflection_chain (trace w)
     \<and> remote (snd (main debug ctor dotenv llm environ w)) = remote w
     \<and> (debug \<longrightarrow> main debug ctor dotenv llm environ w
           = (Inl (AssertionError ''GOOGLE_API_KEY not loaded from .env!''), w))"
proof (cases debug)
  case True
  with assms show ?thesis by (simp add: main_def chains_module_def)
next
  case False
  show ?thesis
  proof (cases "ctor (load_dotenv dotenv environ)")
    case None
    with False assms show ?thesis
      by (simp add: main_def chains_module_def load_dotenv_twice calls_def)
  next
    case (Some e)
    with False assms show ?thesis
      by (simp add: main_def chains_module_def calls_def)
  qed
qed

theorem missing_credential_is_fatal_witness:
  "load_dotenv Map.empty Map.empty ''GOOGLE_API_KEY'' = None
   \<and> main True (\<lambda>env. None) Map.empty steady_llm Map.empty \<lparr>remote = 0, trace = []\<rparr>
       = (Inl (AssertionError ''GOOGLE_API_KEY not loaded from .env!''), \<lparr>remote = 0, trace = []\<rparr>)
   \<and> fst (main False (\<lambda>env. None) Map.empty steady_llm Map.empty \<lparr>remote = 0, trace = []\<rparr>)
       = Inl (KeyError ''GOOGLE_API_KEY'')
   \<and> calls generation_chain
       (trace (snd (main False (\<lambda>env. None) Map.empty steady_llm Map.empty \<lparr>remote = 0, trace = []\<rparr>))) = 0"
  using missing_credential_is_fatal [of Map.empty Map.empty True "\<lambda>env. None" steady_llm
          "\<lparr>remote = 0, trace = []\<rparr>"]
        missing_credential_is_fatal [of Map.empty Map.empty False "\<lambda>env. None" steady_llm
          "\<lparr>remote = 0, trace = []\<rparr>"]
  by (simp add: load_dotenv_def main_def chains_module_def calls_def)

text \<open>
  C9. Whenever the credential is in \<open>os.environ\<close> at start-up, the first thing the program
  does to the outside world is to print the line \<open>GOOGLE_API_KEY loaded:\<close> followed by
  the credential's value as it is; every model call comes after that line. Wrapping the
  value in \<open>SecretStr\<close> (basic.py line 10) happens later and hides nothing of it.
\<close>

theorem credential_printed_in_clear:
  assumes "load_dotenv dotenv environ ''GOOGLE_API_KEY'' = Some v"
  shows "\<exists>rest. trace (snd (main debug ctor dotenv llm environ w))
           = trace w @ Print (''GOOGLE_API_KEY loaded: '' @ v) # rest"
proof (cases "ctor (load_dotenv dotenv environ)")
  case (Some e)
  with assms show ?thesis by (simp add: main_def chains_module_def)
next
  case None
  let ?w2 = "w\<lparr>trace := trace w @
                 [Print (''GOOGLE_API_KEY loaded: '' @ v), PrintGraph Mermaid, PrintGraph Ascii]\<rparr>"
  let ?input = "HumanMessage ''AI Agents taking over content creation''"
  obtain r w3 where run: "app_invoke llm ?input ?w2 = (r, w3)" by force
  from run_from_trace [of llm GENERATE "[?input]" ?w2] run obtain tr where
    t: "trace w3 = trace ?w2 @ tr"
    by (auto simp add: app_invoke_run_from)
  have m: "main debug ctor dotenv llm environ w =
      (case app_invoke llm ?input ?w2 of
         (Inl e, w3) \<Rightarrow> (Inl e, w3)
       | (Inr response, w3) \<Rightarrow> (Inr response, w3\<lparr>trace := trace w3 @ [PrintState response]\<rparr>))"
    using assms None by (simp add: main_def chains_module_def load_dotenv_twice)
  show ?thesis
    using run t unfolding m by (cases r) simp_all
qed

theorem credential_printed_in_clear_witness:
  "load_dotenv Map.empty [''GOOGLE_API_KEY'' \<mapsto> ''s3cret''] ''GOOGLE_API_KEY'' = Some ''s3cret''
   \<and> (\<exists>rest. trace (snd (main True (\<lambda>env. None) Map.empty (flaky_llm 0)
                            [''GOOGLE_API_KEY'' \<mapsto> ''s3cret''] \<lparr>remote = 0, trace = []\<rparr>))
              = Print ''GOOGLE_API_KEY loaded: s3cret'' # rest)"
  using credential_printed_in_clear [of Map.empty "[''GOOGLE_API_KEY'' \<mapsto> ''s3cret'']" "''s3cret''"
          True "\<lambda>env. None" "flaky_llm 0" "\<lparr>remote = 0, trace = []\<rparr>"]
  by (simp add: load_dotenv_def)


text \<open>
  C7. If the model call of the first generation step raises, \<open>app.invoke\<close> raises that
  same error after exactly one model call: no reflection step has run, no conversation
  is returned, and the program prints no final state. The same holds at any step of the
  loop: an error of the model call of a generation or a reflection step ends the run
  with that error, and the failed call is the last thing the run did.
\<close>

theorem remote_error_aborts_run:
  "(llm (generation_prompt [input]) (remote w) = (Inl e, s') \<longrightarrow>
      app_invoke llm input w
        = (Inl e, \<lparr>remote = s', trace = trace w @ [ModelCall generation_chain (generation_prompt [input])]\<rparr>)
      \<and> calls reflection_chain (trace (snd (app_invoke llm input w))) = calls reflection_chain (trace w)
      \<and> calls generation_chain (trace (snd (app_invoke llm input w))) = calls generation_chain (trace w) + 1)
   \<and> (llm (generation_prompt state) (remote w) = (Inl e, s') \<longrightarrow>
      run_from llm GENERATE state w
        = (Inl e, \<lparr>remote = s', trace = trace w @ [ModelCall generation_chain (generation_prompt state)]\<rparr>))
   \<and> (llm (reflection_prompt state) (remote w) = (Inl e, s') \<longrightarrow>
      run_from llm REFLECT state w
        = (Inl e, \<lparr>remote = s', trace = trace w @ [ModelCall reflection_chain (reflection_prompt state)]\<rparr>))
   \<and> (load_dotenv dotenv environ ''GOOGLE_API_KEY'' = Some v
       \<and> ctor (load_dotenv dotenv environ) = None
       \<and> llm (generation_prompt [HumanMessage ''AI Agents taking over content creation'']) (remote w)
            = (Inl e, s') \<longrightarrow>
      main debug ctor dotenv llm environ w
        = (Inl e, \<lparr>remote = s', trace = trace w @
             [Print (''GOOGLE_API_KEY loaded: '' @ v), PrintGraph Mermaid, PrintGraph Ascii,
              ModelCall generation_chain
                (generation_prompt [HumanMessage ''AI Agents taking over content creation''])]\<rparr>))"
proof (intro conjI impI)
  assume "llm (generation_prompt state) (remote w) = (Inl e, s')"
  then show "run_from llm GENERATE state w
        = (Inl e, \<lparr>remote = s', trace = trace w @ [ModelCall generation_chain (generation_prompt state)]\<rparr>)"
    by (simp add: step_generate_fail)
next
  assume "llm (reflection_prompt state) (remote w) = (Inl e, s')"
  then show "run_from llm REFLECT state w
        = (Inl e, \<lparr>remote = s', trace = trace w @ [ModelCall reflection_chain (reflection_prompt state)]\<rparr>)"
    by (simp add: step_reflect_fail)
next
  assume f: "llm (generation_prompt [input]) (remote w) = (Inl e, s')"
  then show a: "app_invoke llm input w
        = (Inl e, \<lparr>remote = s', trace = trace w @ [ModelCall generation_chain (generation_prompt [input])]\<rparr>)"
    by (simp add: app_invoke_run_from step_generate_fail)
  show "calls reflection_chain (trace (snd (app_invoke llm input w))) = calls reflection_chain (trace w)"
    unfolding a by (simp add: calls_def)
  show "calls generation_chain (trace (snd (app_invoke llm input w))) = calls generation_chain (trace w) + 1"
    unfolding a by (simp add: calls_def)
next
  let ?input = "HumanMessage ''AI Agents taking over content creation''"
  let ?w2 = "w\<lparr>trace := trace w @
                 [Print (''GOOGLE_API_KEY loaded: '' @ v), PrintGraph Mermaid, PrintGraph Ascii]\<rparr>"
  assume h: "load_dotenv dotenv environ ''GOOGLE_API_KEY'' = Some v
       \<and> ctor (load_dotenv dotenv environ) = None
       \<and> llm (generation_prompt [?input]) (remote w) = (Inl e, s')"
  then have "llm (generation_prompt [?input]) (remote ?w2) = (Inl e, s')" by simp
  then have "app_invoke llm ?input ?w2
      = (Inl e, \<lparr>remote = s', trace = trace ?w2 @ [ModelCall generation_chain (generation_prompt [?input])]\<rparr>)"
    by (simp only: app_invoke_run_from run_from.simps step_generate_fail prod.case sum.case)
  with h show "main debug ctor dotenv llm environ w
        = (Inl e, \<lparr>remote = s', trace = trace w @
             [Print (''GOOGLE_API_KEY loaded: '' @ v), PrintGraph Mermaid, PrintGraph Ascii,
              ModelCall generation_chain (generation_prompt [?input])]\<rparr>)"
    by (simp add: main_def chains_module_def load_dotenv_twice)
qed

theorem remote_error_aborts_run_witness:
  "flaky_llm 0 (generation_prompt [HumanMessage ''AI Agents taking over content creation'']) 0
      = (Inl (RemoteError ''quota exceeded''), 1)
   \<and> flaky_llm 0 (reflection_prompt [HumanMessage ''AI Agents taking over content creation'']) 0
      = (Inl (RemoteError ''quota exceeded''), 1)
   \<and> load_dotenv Map.empty [''GOOGLE_API_KEY'' \<mapsto> ''s3cret''] ''GOOGLE_API_KEY'' = Some ''s3cret''
   \<and> app_invoke (flaky_llm 0) (HumanMessage ''AI Agents taking over content creation'')
        \<lparr>remote = 0, trace = []\<rparr>
      = (Inl (RemoteError ''quota exceeded''),
         \<lparr>remote = 1, trace = [ModelCall generation_chain
             (generation_prompt [HumanMessage ''AI Agents taking over content creation''])]\<rparr>)
   \<and> run_from (flaky_llm 0) REFLECT [HumanMessage ''AI Agents taking over content creation'']
        \<lparr>remote = 0, trace = []\<rparr>
      = (Inl (RemoteError ''quota exceeded''),
         \<lparr>remote = 1, trace = [ModelCall reflection_chain
             (reflection_prompt [HumanMessage ''AI Agents taking over content creation''])]\<rparr>)
   \<and> main True (\<lambda>env. None) Map.empty (flaky_llm 0) [''GOOGLE_API_KEY'' \<mapsto> ''s3cret'']
        \<lparr>remote = 0, trace = []\<rparr>
      = (Inl (RemoteError ''quota exceeded''),
         \<lparr>remote = 1, trace = [Print ''GOOGLE_API_KEY loaded: s3cret'', PrintGraph Mermaid, PrintGraph Ascii,
             ModelCall generation_chain
               (generation_prompt [HumanMessage ''AI Agents taking over content creation''])]\<rparr>)"
  using remote_error_aborts_run [of "flaky_llm 0" "HumanMessage ''AI Agents taking over content creation''"
          "\<lparr>remote = 0, trace = []\<rparr>" "RemoteError ''quota exceeded''" 1
          "[HumanMessage ''AI Agents taking over content creation'']"
          Map.empty "[''GOOGLE_API_KEY'' \<mapsto> ''s3cret'']" "''s3cret''" "\<lambda>env. None" True]
  by (simp add: flaky_llm_def load_dotenv_def)

end
